theory Spec2Isabelle
  imports Main
begin

section \<open>Python strings and the string primitives the code calls\<close>

text \<open>
  A Python string is modelled as a \<^typ>\<open>string\<close>, a list of 8-bit characters. The
  character classes used below (white space, letters, the class \<open>\W\<close>) are given on ASCII
  characters, where they agree with Python 3; every character above \<open>0x7F\<close> counts as
  neither white space nor a letter nor a word character, so text outside ASCII is outside
  what the model says about Python.
\<close>

abbreviation NL :: char where
  "NL \<equiv> CHR 0x0A"

abbreviation SQ :: char where
  "SQ \<equiv> CHR 0x27"


text \<open>\<open>s.rfind(c)\<close> for a one-character \<open>c\<close>: the highest index of \<open>c\<close>, or \<open>-1\<close>.\<close>

fun rfind_from :: "char \<Rightarrow> string \<Rightarrow> int \<Rightarrow> int \<Rightarrow> int" where
  "rfind_from c [] i found = found"
| "rfind_from c (x # xs) i found = rfind_from c xs (i + 1) (if x = c then i else found)"

definition py_rfind :: "string \<Rightarrow> char \<Rightarrow> int" where
  "py_rfind s c = rfind_from c s 0 (- 1)"

text \<open>\<open>sep.join(xs)\<close>.\<close>

fun py_join :: "string \<Rightarrow> string list \<Rightarrow> string" where
  "py_join sep [] = []"
| "py_join sep [x] = x"
| "py_join sep (x # y # ys) = x @ sep @ py_join sep (y # ys)"

section \<open>\<open>os.path.splitext\<close> (posixpath)\<close>

text \<open>
  The standard library's \<open>genericpath._splitext(p, '/', None, '.')\<close>: the extension
  starts at the last dot of the last path component, unless only dots precede it there.
  \<^verbatim>\<open>
    sepIndex = p.rfind(sep)
    dotIndex = p.rfind(extsep)
    if dotIndex > sepIndex:
        filenameIndex = sepIndex + 1
        while filenameIndex < dotIndex:
            if p[filenameIndex:filenameIndex+1] != extsep:
                return p[:dotIndex], p[dotIndex:]
            filenameIndex += 1
    return p, p[:0]
  \<close>
\<close>

function splitext_loop :: "string \<Rightarrow> nat \<Rightarrow> nat \<Rightarrow> string \<times> string" where
  "splitext_loop p filenameIndex dotIndex =
     (if filenameIndex < dotIndex then
        (if p ! filenameIndex \<noteq> CHR ''.'' then (take dotIndex p, drop dotIndex p)
         else splitext_loop p (filenameIndex + 1) dotIndex)
      else (p, []))"
  by pat_completeness auto
termination
  by (relation "measure (\<lambda>(p, filenameIndex, dotIndex). dotIndex - filenameIndex)") auto

declare splitext_loop.simps [simp del]

definition splitext :: "string \<Rightarrow> string \<times> string" where
  "splitext p =
     (let sepIndex = py_rfind p CHR ''/'';
          dotIndex = py_rfind p CHR ''.''
      in if dotIndex > sepIndex
         then splitext_loop p (nat (sepIndex + 1)) (nat dotIndex)
         else (p, []))"

section \<open>\<open>eautils/fileio.py\<close>: file types\<close>

datatype exn =
    IOError string
  | ValueError
  | IndexError
  | StopIteration
  | AttributeError
  | TypeError
  | NameError
  | NoSectionError string
  | NoOptionError string string
  | OtherError string

definition PANDAS_EXTS :: "string list" where
  "PANDAS_EXTS = [''.csv'', ''.tab'', ''.h5'']"

definition FITS_EXTS :: "string list" where
  "FITS_EXTS = [''.fits'']"

definition FILE_EXTS :: "string list" where
  "FILE_EXTS = PANDAS_EXTS @ FITS_EXTS"

text \<open>\<open>"'%s'" % t\<close>.\<close>

definition quoted :: "string \<Rightarrow> string" where
  "quoted t = [SQ] @ t @ [SQ]"

definition unrecognized_filetype :: "string \<Rightarrow> string list option \<Rightarrow> string" where
  "unrecognized_filetype filename types =
     (let types = (case types of None \<Rightarrow> FILE_EXTS | Some ts \<Rightarrow> ts);
          (base, ext) = splitext filename;
          ext = (if ext = [] then base else ext)
      in ''Unrecognized file type: '' @ quoted ext @ [NL]
         @ ''Supported filetypes:'' @ [NL]
         @ '' '' @ py_join '', '' (map quoted types))"

definition check_filetype :: "string \<Rightarrow> string list option \<Rightarrow> exn + bool" where
  "check_filetype filename types =
     (let types = (case types of None \<Rightarrow> FILE_EXTS | Some ts \<Rightarrow> ts);
          (base, ext) = splitext filename;
          ext = (if ext = [] then base else ext)
      in if ext \<notin> set types
         then Inl (IOError (unrecognized_filetype ext (Some types)))
         else Inr True)"

text \<open>
  The extension \<open>check_filetype\<close> compares: the extension of the file name, or the
  whole name when \<open>os.path.splitext\<close> finds no extension in it.
\<close>

definition file_ext :: "string \<Rightarrow> string" where
  "file_ext filename = (if snd (splitext filename) = [] then filename else snd (splitext filename))"

text \<open>\<open>str.lower\<close> on ASCII letters, and strings that differ only in letter case.\<close>

definition ascii_lowercase :: string where
  "ascii_lowercase = ''abcdefghijklmnopqrstuvwxyz''"

definition ascii_uppercase :: string where
  "ascii_uppercase = ''ABCDEFGHIJKLMNOPQRSTUVWXYZ''"

definition py_lower_char :: "char \<Rightarrow> char" where
  "py_lower_char c = (case map_of (zip ascii_uppercase ascii_lowercase) c of None \<Rightarrow> c | Some l \<Rightarrow> l)"

definition py_lower :: "string \<Rightarrow> string" where
  "py_lower s = map py_lower_char s"

definition differs_only_in_case :: "string \<Rightarrow> string \<Rightarrow> bool" where
  "differs_only_in_case a b = (a \<noteq> b \<and> py_lower a = py_lower b)"

section \<open>More string primitives\<close>

text \<open>\<open>str.isspace\<close> on one ASCII character, and \<open>s.split()\<close>: the words between runs of
  white space. The second argument of \<open>split_words\<close> is the word read so far.\<close>

definition py_isspace :: "char \<Rightarrow> bool" where
  "py_isspace c = (c \<in> set [CHR 0x09, NL, CHR 0x0B, CHR 0x0C, CHR 0x0D,
                              CHR 0x1C, CHR 0x1D, CHR 0x1E, CHR 0x1F, CHR '' ''])"

fun split_words :: "string \<Rightarrow> string \<Rightarrow> string list" where
  "split_words [] w = (if w = [] then [] else [w])"
| "split_words (c # cs) w =
     (if py_isspace c then (if w = [] then split_words cs [] else w # split_words cs [])
      else split_words cs (w @ [c]))"

definition py_split :: "string \<Rightarrow> string list" where
  "py_split s = split_words s []"



text \<open>\<open>s.strip()\<close>.\<close>

definition py_strip :: "string \<Rightarrow> string" where
  "py_strip s = rev (dropWhile py_isspace (rev (dropWhile py_isspace s)))"

text \<open>\<open>s.replace(old, new)\<close> for a one-character \<open>old\<close>.\<close>

definition py_replace :: "string \<Rightarrow> char \<Rightarrow> string \<Rightarrow> string" where
  "py_replace s old new = concat (map (\<lambda>c. if c = old then new else [c]) s)"




text \<open>\<open>s.find(sub)\<close>: the lowest index where \<open>sub\<close> starts, or \<open>-1\<close>.\<close>

fun find_from :: "string \<Rightarrow> string \<Rightarrow> int \<Rightarrow> int" where
  "find_from sub [] i = (if sub = [] then i else - 1)"
| "find_from sub (x # xs) i =
     (if take (length sub) (x # xs) = sub then i else find_from sub xs (i + 1))"

definition py_find :: "string \<Rightarrow> string \<Rightarrow> int" where
  "py_find s sub = find_from sub s 0"


text \<open>\<open>str.upper\<close> on ASCII letters.\<close>

definition py_upper_char :: "char \<Rightarrow> char" where
  "py_upper_char c = (case map_of (zip ascii_lowercase ascii_uppercase) c of None \<Rightarrow> c | Some u \<Rightarrow> u)"

definition py_upper :: "string \<Rightarrow> string" where
  "py_upper s = map py_upper_char s"




section \<open>\<open>eautils/dbdo_utils.py\<close>: what a command does\<close>

text \<open>
  A command of \<open>DB_Func\<close> is a function from the shell's state and its input to the new
  state, the list of its effects in the order they happen, and the way it ends: it
  returns to the command loop, an exception leaves it, or it ends the process.
  An argument of a stored procedure is a string or a float; \<open>'f\<close> is the type of floats,
  \<open>'r\<close> the type of table rows and \<open>'d\<close> the type of a table's column types.
\<close>

datatype 'f pyarg = Str string | Flt 'f

text \<open>
  The effects: \<open>Print s\<close> is \<open>print(s)\<close>, \<open>PrintColored s c\<close> is
  \<open>print(colored(s, c, self.ct))\<close>, \<open>PrintColoredFormat fmt args c\<close> is
  \<open>print(colored(fmt % args, c, self.ct))\<close> with the format and its arguments kept apart,
  \<open>PrintColoredThen s c t\<close> is \<open>print(colored(s, c, self.ct), t)\<close>; the others are the
  calls of the same names.
\<close>

datatype fmt_arg = FmtStr string | FmtInt int

datatype ('f, 'r, 'd) event =
    Print string
  | PrintColored string string
  | PrintColoredFormat string "fmt_arg list" string
  | PrintColoredThen string string string
  | PrintException exn
  | PrintExcInfo exn
  | Help string
  | Getpass string
  | QueryAndPrint string "(string \<times> string) list"
  | Callproc string "'f pyarg list"
  | ConfigWrite
  | ConClose
  | Connect string string string
  | SetConAutocommit
  | Sleep nat
  | SetMessages
  | ReadFile string
  | CreateTable string "string list" 'd
  | InsertData string "string list" "'r list" 'd nat
  | DropTable string

datatype outcome = Returned | Raised exn | Exited int

subsection \<open>\<open>do_execproc\<close>\<close>










subsection \<open>The state of the shell\<close>

text \<open>
  \<open>self.desconfig\<close> is a \<open>ConfigParser\<close>: sections of options. \<open>get\<close> raises
  \<open>NoSectionError\<close> or \<open>NoOptionError\<close> for what is absent, \<open>set\<close> raises
  \<open>NoSectionError\<close>.
\<close>

type_synonym config = "string \<Rightarrow> (string \<Rightarrow> string option) option"

definition config_get :: "config \<Rightarrow> string \<Rightarrow> string \<Rightarrow> exn + string" where
  "config_get cfg section opt =
     (case cfg section of
        None \<Rightarrow> Inl (NoSectionError section)
      | Some options \<Rightarrow>
          (case options opt of None \<Rightarrow> Inl (NoOptionError opt section) | Some v \<Rightarrow> Inr v))"


text \<open>
  The attributes of \<open>self\<close> that the commands read and write. \<open>'con\<close> is the type of
  database connections; \<open>cur\<close> is the connection whose cursor \<open>self.cur\<close> is.
\<close>

record 'con db_func =
  dbname :: string
  user :: string
  password :: string
  dbhost :: string
  service_name :: string
  port :: string
  dsn :: string
  con :: 'con
  cur :: 'con
  cur_arraysize :: int
  prefetch :: int
  quiet :: bool
  autocommit :: bool
  desconfig :: config

subsection \<open>\<open>do_set_password\<close>\<close>



subsection \<open>\<open>do_change_db\<close>\<close>

text \<open>
  What \<open>do_change_db\<close> gets from \<open>cx_Oracle\<close>: \<open>makedsn\<close>, the exception, if any, that
  \<open>self.con.close()\<close> raises, and what the attempt number \<open>tries\<close> to connect gives: the
  text of the exception or the new connection.
\<close>

record 'con change_db_env =
  makedsn :: "string \<Rightarrow> string \<Rightarrow> string \<Rightarrow> string"
  con_close :: "'con \<Rightarrow> exn option"
  connect :: "nat \<Rightarrow> string \<Rightarrow> string \<Rightarrow> string \<Rightarrow> string + 'con"

text \<open>Lines 122 to 130: the four reads of the configuration, and whether all succeeded.\<close>

definition read_db_config :: "'con db_func \<Rightarrow> 'con db_func \<times> bool" where
  "read_db_config self =
     (case config_get (desconfig self) (''db-'' @ dbname self) ''user'' of
        Inl e \<Rightarrow> (self, False)
      | Inr v \<Rightarrow>
     (let self = self\<lparr>user := v\<rparr>
      in case config_get (desconfig self) (''db-'' @ dbname self) ''passwd'' of
        Inl e \<Rightarrow> (self, False)
      | Inr v \<Rightarrow>
     (let self = self\<lparr>password := v\<rparr>
      in case config_get (desconfig self) (''db-'' @ dbname self) ''server'' of
        Inl e \<Rightarrow> (self, False)
      | Inr v \<Rightarrow>
     (let self = self\<lparr>dbhost := v\<rparr>
      in case config_get (desconfig self) (''db-'' @ dbname self) ''name'' of
        Inl e \<Rightarrow> (self, False)
      | Inr v \<Rightarrow> (self\<lparr>service_name := v\<rparr>, True)))))"

text \<open>Lines 137 to 150: the loop \<open>for tries in range(1)\<close>, over the list of the values of
  \<open>tries\<close> still to come; the result says whether \<open>connected\<close> is set.\<close>

fun connect_tries ::
  "'con change_db_env \<Rightarrow> nat list \<Rightarrow> 'con db_func \<Rightarrow> 'con db_func \<times> ('f, 'r, 'd) event list \<times> bool" where
  "connect_tries env [] self = (self, [], False)"
| "connect_tries env (tries # rest) self =
     (case connect env tries (user self) (password self) (dsn self) of
        Inr c \<Rightarrow>
          (self\<lparr>con := c\<rparr>,
           [Connect (user self) (password self) (dsn self)]
             @ (if autocommit self then [SetConAutocommit] else []),
           True)
      | Inl e \<Rightarrow>
          (let lasterr = py_strip e;
               (self', evs, connected) = connect_tries env rest self
           in (self',
               [Connect (user self) (password self) (dsn self),
                PrintColored (''Error when trying to connect to database: '' @ lasterr) ''red'',
                Print ([NL] @ ''   Retrying...'' @ [NL]),
                Sleep 5] @ evs,
               connected)))"

definition could_not_connect :: string where
  "could_not_connect =
     [NL] @ '' ** Could not successfully connect to DB. Try again later. Aborting. ** '' @ [NL]"

definition do_change_db ::
  "'con change_db_env \<Rightarrow> 'con db_func \<Rightarrow> string \<Rightarrow> 'con db_func \<times> ('f, 'r, 'd) event list \<times> outcome" where
  "do_change_db env self line =
     (if line = [] then (self, [Help ''change_db''], Returned)
      else
        (let line = py_join '' '' (py_split line)
         in case py_split line of
              [] \<Rightarrow> (self, [], Raised IndexError)
            | key_db # others \<Rightarrow>
               if key_db \<in> set [''dessci'', ''desoper'', ''destest''] then
                 if key_db = dbname self then
                   (self, [PrintColored (''Already connected to : '' @ key_db) ''green''], Returned)
                 else
                   (case read_db_config (self\<lparr>dbname := key_db\<rparr>) of
                      (self, False) \<Rightarrow>
                        (self, [PrintColored (''DB '' @ key_db @ '' does not exist in your desservices file'')
                                  ''red''], Returned)
                    | (self, True) \<Rightarrow>
                       (let self = self\<lparr>dsn := makedsn env (dbhost self) (port self) (service_name self)\<rparr>;
                            ev1 = (if \<not> quiet self
                                   then [Print (''Connecting to DB ** '' @ dbname self @ '' ** ...'')]
                                   else [])
                        in case con_close env (con self) of
                             Some e \<Rightarrow> (self, ev1 @ [ConClose], Raised e)
                           | None \<Rightarrow>
                              (case connect_tries env [0..<1] self of
                                 (self, ev2, connected) \<Rightarrow>
                                   if \<not> connected then
                                     (self, ev1 @ [ConClose] @ ev2 @ [Print could_not_connect], Exited 0)
                                   else
                                     (self\<lparr>cur := con self, cur_arraysize := prefetch self\<rparr>,
                                      ev1 @ [ConClose] @ ev2 @
                                      [Print [],
                                       Print ''Run refresh_metadata_cache to reload the auto-completion metatada'',
                                       SetMessages],
                                      Returned))))
               else
                 (self, [PrintColored (''DB '' @ key_db @ '' does not exist or you don'' @ [SQ]
                           @ ''t have access to it'') ''red''], Returned)))"




text \<open>A shell for examples: connected to \<open>dessci\<close>, with \<open>dessci\<close> and \<open>desoper\<close> in its
  configuration and no section for \<open>destest\<close>.\<close>

definition desconfig0 :: config where
  "desconfig0 =
     [''db-dessci'' \<mapsto> [''user'' \<mapsto> ''alice'', ''passwd'' \<mapsto> ''old_pw'',
                        ''server'' \<mapsto> ''sci.example.org'', ''name'' \<mapsto> ''sci''],
      ''db-desoper'' \<mapsto> [''user'' \<mapsto> ''alice'', ''passwd'' \<mapsto> ''oper_pw'',
                         ''server'' \<mapsto> ''oper.example.org'', ''name'' \<mapsto> ''oper'']]"

definition shell0 :: "nat db_func" where
  "shell0 = \<lparr>dbname = ''dessci'', user = ''alice'', password = ''old_pw'',
             dbhost = ''sci.example.org'', service_name = ''sci'', port = ''1521'',
             dsn = ''sci.example.org:1521/sci'', con = 1, cur = 1, cur_arraysize = 5000,
             prefetch = 5000, quiet = False, autocommit = True, desconfig = desconfig0\<rparr>"


text \<open>The attempts to connect among the effects of a command.\<close>

fun is_connect :: "('f, 'r, 'd) event \<Rightarrow> bool" where
  "is_connect (Connect u p d) = True"
| "is_connect e = False"

definition valid_dbs :: "string list" where
  "valid_dbs = [''dessci'', ''desoper'', ''destest'']"

text \<open>A database that refuses every connection, for examples.\<close>

definition refusing :: "nat change_db_env" where
  "refusing = \<lparr>makedsn = (\<lambda>host port service. host @ '':'' @ port @ ''/'' @ service),
                con_close = (\<lambda>c. None),
                connect = (\<lambda>tries u p d. Inl ''ORA-12170: TNS:Connect timeout occurred'')\<rparr>"

subsection \<open>\<open>do_load_table\<close>\<close>

text \<open>
  What \<open>eafile.read_file\<close> returns is a pair \<open>(data, iterator)\<close>; \<open>data\<close> has the attribute
  \<open>file_type\<close>. The code uses \<open>data\<close> as a pandas \<open>DataFrame\<close> (its columns and its rows), as
  a reader whose \<open>get_chunk\<close> gives the next \<open>DataFrame\<close> or raises (the list holds what the
  calls still to come return; on the empty list \<open>get_chunk\<close> raises \<open>StopIteration\<close>), or
  as a FITS file whose table \<open>data[1]\<close> has a number of rows, column names and a reader
  of the rows \<open>[start:stop]\<close>.
\<close>

record 'r frame =
  df_columns :: "string list"
  df_values :: "'r list"

record 'r hdu =
  get_nrows :: int
  get_colnames :: "string list"
  read_rows :: "int \<Rightarrow> int \<Rightarrow> exn + 'r list"

datatype 'r payload =
    DataFrame "'r frame"
  | TextFileReader "(exn + 'r frame) list"
  | FITS "'r hdu"

record 'r data =
  file_type :: string
  payload :: "'r payload"

text \<open>\<open>data.get_chunk(chunk)\<close>, \<open>data\<close> used as a \<open>DataFrame\<close>, and \<open>data[1]\<close>; an object of
  another kind raises.\<close>

definition get_chunk :: "'r data \<Rightarrow> (exn + 'r frame) \<times> 'r data" where
  "get_chunk data =
     (case payload data of
        TextFileReader [] \<Rightarrow> (Inl StopIteration, data)
      | TextFileReader (r # rs) \<Rightarrow> (r, data\<lparr>payload := TextFileReader rs\<rparr>)
      | DataFrame df \<Rightarrow> (Inl AttributeError, data)
      | FITS h \<Rightarrow> (Inl AttributeError, data))"

definition as_frame :: "'r data \<Rightarrow> exn + 'r frame" where
  "as_frame data =
     (case payload data of
        DataFrame df \<Rightarrow> Inr df
      | TextFileReader rs \<Rightarrow> Inl TypeError
      | FITS h \<Rightarrow> Inl AttributeError)"

definition table_hdu :: "'r data \<Rightarrow> exn + 'r hdu" where
  "table_hdu data =
     (case payload data of
        FITS h \<Rightarrow> Inr h
      | DataFrame df \<Rightarrow> Inl TypeError
      | TextFileReader rs \<Rightarrow> Inl TypeError)"

text \<open>The arguments that \<open>KeyParser.parse_args\<close> returns.\<close>

record load_args =
  args_filename :: string
  args_tablename :: "string option"
  args_chunksize :: "int option"
  args_memsize :: "int option"
  args_help :: bool

text \<open>
  What neither \<open>dbdo_utils.py\<close> nor \<open>fileio.py\<close> defines: the argument parser (\<open>None\<close> where it raises
  \<open>SystemExit\<close>), \<open>eafile.get_filename\<close>, \<open>eafile.get_chunksize\<close>, \<open>eafile.read_file\<close>,
  \<open>eafile.get_dtypes\<close> (the module \<open>eafile\<close> that \<open>dbdo_utils.py\<close> uses has these four
  functions, and its \<open>read_file\<close> returns a pair, which the \<open>read_file\<close> of \<open>fileio.py\<close>
  does not), and the methods \<open>check_table_exists\<close>, \<open>create_table\<close>,
  \<open>insert_data\<close> and \<open>drop_table\<close>, which work on the database \<open>'db\<close>: each gives the
  exception it raises, if any, and the database it leaves.
\<close>

record ('r, 'd, 'db) load_env =
  parse_args :: "string list \<Rightarrow> load_args option"
  eafile_get_filename :: "string \<Rightarrow> string option"
  eafile_get_chunksize :: "string option \<Rightarrow> int \<Rightarrow> exn + int"
  check_table_exists :: "string \<Rightarrow> 'db \<Rightarrow> bool"
  eafile_read_file :: "string \<Rightarrow> exn + ('r data \<times> bool)"
  eafile_get_dtypes :: "'r data \<Rightarrow> exn + 'd"
  create_table :: "string \<Rightarrow> string list \<Rightarrow> 'd \<Rightarrow> 'db \<Rightarrow> exn option \<times> 'db"
  insert_data :: "string \<Rightarrow> string list \<Rightarrow> 'r list \<Rightarrow> 'd \<Rightarrow> nat \<Rightarrow> 'db \<Rightarrow> exn option \<times> 'db"
  drop_table :: "string \<Rightarrow> 'db \<Rightarrow> exn option \<times> 'db"

text \<open>
  The local variables of the loops, with the database and the effects so far.
  \<open>dtypes\<close> and \<open>columns\<close> are \<open>None\<close> until they are assigned; \<open>done_flag\<close> is \<open>done\<close>.
\<close>

record ('f, 'r, 'd, 'db) loading =
  iteration :: nat
  done_flag :: bool
  total_rows :: nat
  dtypes :: "'d option"
  columns :: "string list option"
  start :: int
  db :: 'db
  log :: "('f, 'r, 'd) event list"

text \<open>One pass through the body of a loop goes on to the next pass, breaks out of the
  loop, or returns from the command.\<close>

datatype ('s, 'x) step = Continue 'x 's | Break 's | Return 's outcome

datatype 's ended = Finished 's | Left 's outcome

definition say :: "('f, 'r, 'd) event list \<Rightarrow> ('f, 'r, 'd, 'db) loading \<Rightarrow> ('f, 'r, 'd, 'db) loading" where
  "say evs st = st\<lparr>log := log st @ evs\<rparr>"

text \<open>The handler \<open>print_exception(mode=self.ct); self.drop_table(table); return\<close>.\<close>

definition load_fail ::
  "('r, 'd, 'db) load_env \<Rightarrow> string \<Rightarrow> exn \<Rightarrow> ('f, 'r, 'd, 'db) loading \<Rightarrow>
   (('f, 'r, 'd, 'db) loading, 'x) step" where
  "load_fail env table e st =
     (case drop_table env table (db st) of
        (None, db') \<Rightarrow> Return (say [PrintException e, DropTable table] (st\<lparr>db := db'\<rparr>)) Returned
      | (Some e', db') \<Rightarrow> Return (say [PrintException e, DropTable table] (st\<lparr>db := db'\<rparr>)) (Raised e'))"














text \<open>Lines 365 to 433.\<close>

definition invalid_chars :: string where
  "invalid_chars = ''-$~@*''"

definition has_invalid_char :: "string \<Rightarrow> bool" where
  "has_invalid_char s = list_ex (\<lambda>char. char \<in> set invalid_chars) s"


text \<open>The chunk size, from the arguments of the line, the keyword arguments and
  \<open>eafile.get_chunksize\<close>.\<close>

definition choose_chunk ::
  "(string option \<Rightarrow> int \<Rightarrow> exn + int) \<Rightarrow> string option \<Rightarrow> load_args \<Rightarrow> int option \<Rightarrow> int option \<Rightarrow>
   exn + int option" where
  "choose_chunk chunksize_of filename args chunksize memsize =
     (let chunk = (case chunksize of None \<Rightarrow> args_chunksize args | Some c \<Rightarrow> Some c);
          memchunk = (case memsize of None \<Rightarrow> args_memsize args | Some m \<Rightarrow> Some m)
      in case memchunk of
           None \<Rightarrow> Inr chunk
         | Some m \<Rightarrow>
             (case chunksize_of filename m of
                Inl e \<Rightarrow> Inl e
              | Inr memchunk_rows \<Rightarrow>
                  (case chunk of
                     None \<Rightarrow> Inr (Some memchunk_rows)
                   | Some c \<Rightarrow> Inr (Some (min c memchunk_rows)))))"

text \<open>\<open>os.path.basename\<close> (posixpath).\<close>

definition basename :: "string \<Rightarrow> string" where
  "basename p = drop (nat (py_rfind p CHR ''/'' + 1)) p"

definition h5_message :: string where
  "h5_message = [NL] @ ''HDF5 file upload with chunksize is not supported yet. Try without --chunksize''
                @ [NL]"



text \<open>
  The calls to the database among the effects of a command: \<open>create_table\<close>,
  \<open>insert_data\<close> with the number of rows and the iteration it is given, \<open>drop_table\<close>.
\<close>

datatype call = Create | Insert nat nat | Drop

fun call_of :: "('f, 'r, 'd) event \<Rightarrow> call list" where
  "call_of (CreateTable table cols dt) = [Create]"
| "call_of (InsertData table cols vals dt i) = [Insert (length vals) i]"
| "call_of (DropTable table) = [Drop]"
| "call_of e = []"

definition calls :: "('f, 'r, 'd) event list \<Rightarrow> call list" where
  "calls evs = concat (map call_of evs)"





text \<open>
  A database for examples: a table is a list of rows and a row a list of numbers.
  \<open>insert_data\<close> raises, and inserts nothing, when a row has not one number for each
  column. \<open>files\<close> says what \<open>eafile.read_file\<close> gives for a file name.
\<close>

type_synonym toy_db = "string \<Rightarrow> nat list list option"

definition toy_load_env ::
  "(string \<Rightarrow> exn + (nat list data \<times> bool)) \<Rightarrow> (nat list, string, toy_db) load_env" where
  "toy_load_env files =
     \<lparr>parse_args = (\<lambda>words. case words of
          [] \<Rightarrow> None
        | f # options \<Rightarrow> Some \<lparr>args_filename = f, args_tablename = None, args_chunksize = None,
                               args_memsize = None, args_help = False\<rparr>),
      eafile_get_filename = Some,
      eafile_get_chunksize = (\<lambda>filename memory. Inr 1000),
      check_table_exists = (\<lambda>table d. d table \<noteq> None),
      eafile_read_file = files,
      eafile_get_dtypes = (\<lambda>data. Inr ''NUMBER''),
      create_table = (\<lambda>table cols dt d.
         if d table \<noteq> None then (Some (OtherError ''ORA-00955''), d) else (None, d(table \<mapsto> []))),
      insert_data = (\<lambda>table cols vals dt i d.
         case d table of
           None \<Rightarrow> (Some (OtherError ''ORA-00942''), d)
         | Some rows \<Rightarrow>
             if list_all (\<lambda>row. length row = length cols) vals
             then (None, d(table \<mapsto> rows @ vals))
             else (Some (OtherError ''ORA-01722''), d)),
      drop_table = (\<lambda>table d. (None, d(table := None)))\<rparr>"

definition toy_files :: "string \<Rightarrow> exn + (nat list data \<times> bool)" where
  "toy_files filename =
     (if filename = ''empty.csv'' then
        Inr (\<lparr>file_type = ''pandas'',
              payload = DataFrame \<lparr>df_columns = [''RA'', ''DEC''], df_values = []\<rparr>\<rparr>, False)
      else if filename = ''stars.csv'' then
        Inr (\<lparr>file_type = ''pandas'',
              payload = TextFileReader
                [Inr \<lparr>df_columns = [''RA'', ''DEC''], df_values = [[1, 2], [3, 4]]\<rparr>,
                 Inr \<lparr>df_columns = [''RA'', ''DEC''], df_values = [[5, 6]]\<rparr>]\<rparr>, True)
      else if filename = ''ragged.csv'' then
        Inr (\<lparr>file_type = ''pandas'',
              payload = TextFileReader
                [Inr \<lparr>df_columns = [''RA'', ''DEC''], df_values = [[1, 2], [3, 4]]\<rparr>,
                 Inr \<lparr>df_columns = [''RA'', ''DEC''], df_values = [[5, 6, 7]]\<rparr>]\<rparr>, True)
      else Inl (IOError (''Problem reading '' @ filename @ [NL])))"

subsection \<open>\<open>do_append_table\<close>\<close>

text \<open>The handler \<open>print_exception(mode=self.ct); return\<close>.\<close>

definition append_fail ::
  "exn \<Rightarrow> ('f, 'r, 'd, 'db) loading \<Rightarrow> (('f, 'r, 'd, 'db) loading, 'x) step" where
  "append_fail e st = Return (say [PrintException e] st) Returned"

text \<open>\<open>try: if not done: self.insert_data(table, columns, values, dtypes, iteration);
  iteration += 1; if not iterator: done = True; except: ...\<close>. In the loop over a FITS
  file \<open>done\<close> is not assigned, which is the case \<open>iterator = True\<close> here.\<close>

definition append_insert ::
  "('r, 'd, 'db) load_env \<Rightarrow> string \<Rightarrow> 'r list \<Rightarrow> bool \<Rightarrow> 'x \<Rightarrow> ('f, 'r, 'd, 'db) loading \<Rightarrow>
   (('f, 'r, 'd, 'db) loading, 'x) step" where
  "append_insert env table vals iterator next st =
     (if \<not> done_flag st then
        (case (columns st, dtypes st) of
           (Some cols, Some dt) \<Rightarrow>
             (case insert_data env table cols vals dt (iteration st) (db st) of
                (None, db') \<Rightarrow>
                  Continue next
                    ((say [InsertData table cols vals dt (iteration st)] (st\<lparr>db := db'\<rparr>))
                       \<lparr>iteration := iteration st + 1, done_flag := \<not> iterator\<rparr>)
              | (Some e, db') \<Rightarrow>
                  append_fail e (say [InsertData table cols vals dt (iteration st)] (st\<lparr>db := db'\<rparr>)))
         | (Some cols, None) \<Rightarrow> append_fail NameError st
         | (None, dt) \<Rightarrow> append_fail NameError st)
      else Continue next st)"

text \<open>Lines 639 to 663: the body of the loop over a pandas object.\<close>

definition append_pandas_body ::
  "('r, 'd, 'db) load_env \<Rightarrow> string \<Rightarrow> bool \<Rightarrow> 'r data \<Rightarrow> ('f, 'r, 'd, 'db) loading \<Rightarrow>
   (('f, 'r, 'd, 'db) loading, 'r data) step" where
  "append_pandas_body env table iterator data st =
     (case (if iterator then get_chunk data else (as_frame data, data)) of
        (Inl e, next) \<Rightarrow> Break st
      | (Inr df, next) \<Rightarrow>
          if length (df_values df) = 0 then Break st
          else
            (case (if iteration st = 0
                   then map_sum id Some (eafile_get_dtypes env \<lparr>file_type = ''pandas'', payload = DataFrame df\<rparr>)
                   else Inr (dtypes st)) of
               Inl e \<Rightarrow> Break st
             | Inr dt \<Rightarrow>
                 (let st = st\<lparr>dtypes := dt, columns := Some (df_columns df),
                              total_rows := total_rows st + length (df_values df)\<rparr>
                  in append_insert env table (df_values df) iterator next st)))"

lemma append_pandas_body_Continue:
  assumes "\<not> done_flag st" and "append_pandas_body env table iterator data st = Continue next st'"
  shows "if iterator
         then (\<exists>r rs. payload data = TextFileReader (r # rs) \<and> payload next = TextFileReader rs)
         else done_flag st'"
  using assms
  by (auto simp: append_pandas_body_def append_insert_def append_fail_def get_chunk_def
      say_def Let_def
      split: if_splits sum.splits prod.splits option.splits payload.splits list.splits)

text \<open>Lines 638 to 663: \<open>while not done\<close>.\<close>

function append_pandas_loop ::
  "('r, 'd, 'db) load_env \<Rightarrow> string \<Rightarrow> bool \<Rightarrow> 'r data \<Rightarrow> ('f, 'r, 'd, 'db) loading \<Rightarrow>
   ('f, 'r, 'd, 'db) loading ended" where
  "append_pandas_loop env table iterator data st =
     (if done_flag st then Finished st
      else (case append_pandas_body env table iterator data st of
              Break st' \<Rightarrow> Finished st'
            | Return st' out \<Rightarrow> Left st' out
            | Continue next st' \<Rightarrow> append_pandas_loop env table iterator next st'))"
  by pat_completeness auto
termination
  apply (relation "measure (\<lambda>(env, table, iterator, data, st).
         if done_flag st then 0
         else Suc (case payload data of TextFileReader rs \<Rightarrow> length rs | DataFrame df \<Rightarrow> 0 | FITS h \<Rightarrow> 0))")
   apply simp
  apply (frule (1) append_pandas_body_Continue)
  apply (auto split: if_splits)
  done

declare append_pandas_loop.simps [simp del]

text \<open>Lines 670 to 689: the body of the loop over a FITS file.\<close>

definition append_fits_body ::
  "('r, 'd, 'db) load_env \<Rightarrow> string \<Rightarrow> 'r data \<Rightarrow> int \<Rightarrow> ('f, 'r, 'd, 'db) loading \<Rightarrow>
   (('f, 'r, 'd, 'db) loading, unit) step" where
  "append_fits_body env table data chunk st =
     (case (if iteration st = 0 then
              (case eafile_get_dtypes env data of
                 Inl e \<Rightarrow> Inl e
               | Inr dt \<Rightarrow>
                   (case table_hdu data of
                      Inl e \<Rightarrow> Inl e
                    | Inr h \<Rightarrow> Inr (st\<lparr>dtypes := Some dt, columns := Some (get_colnames h)\<rparr>)))
            else Inr st) of
        Inl e \<Rightarrow> Break st
      | Inr st \<Rightarrow>
          (case table_hdu data of
             Inl e \<Rightarrow> Break st
           | Inr h \<Rightarrow>
               (case read_rows h (start st) (start st + chunk) of
                  Inl e \<Rightarrow> Break st
                | Inr vals \<Rightarrow>
                    (let st = st\<lparr>start := start st + chunk\<rparr>
                     in if length vals = 0 then Break st
                        else append_insert env table vals True ()
                               (st\<lparr>total_rows := total_rows st + length vals\<rparr>)))))"

text \<open>Lines 669 to 689: \<open>while not done\<close>, a partial function as in \<open>do_load_table\<close>.\<close>

partial_function (option) append_fits_loop ::
  "('r, 'd, 'db) load_env \<Rightarrow> string \<Rightarrow> 'r data \<Rightarrow> int \<Rightarrow> ('f, 'r, 'd, 'db) loading \<Rightarrow>
   ('f, 'r, 'd, 'db) loading ended option" where
  "append_fits_loop env table data chunk st =
     (if done_flag st then Some (Finished st)
      else (case append_fits_body env table data chunk st of
              Break st' \<Rightarrow> Some (Finished st')
            | Return st' out \<Rightarrow> Some (Left st' out)
            | Continue u st' \<Rightarrow> append_fits_loop env table data chunk st'))"

definition appended_format :: string where
  "appended_format = [NL] @ '' ** Table %s appended successfully with %d rows.''"

text \<open>Lines 628 to 692, with the table name, the file name and the chunk size that the
  lines before them have set.\<close>

definition append_table_run ::
  "('r, 'd, 'db) load_env \<Rightarrow> string \<Rightarrow> string \<Rightarrow> int option \<Rightarrow> 'db \<Rightarrow>
   ('db \<times> ('f, 'r, 'd) event list \<times> outcome) option" where
  "append_table_run env table filename chunk db0 =
     (case eafile_read_file env filename of
        Inl e \<Rightarrow> Some (db0, [ReadFile filename, PrintException e], Returned)
      | Inr (data, iterator) \<Rightarrow>
          (let st = \<lparr>iteration = 0, done_flag = False, total_rows = 0, dtypes = None,
                     columns = None, start = 0, db = db0, log = [ReadFile filename]\<rparr>;
               report = (\<lambda>st. (db st,
                   log st @ [PrintColoredFormat appended_format
                               [FmtStr (py_upper table), FmtInt (int (total_rows st))] ''green''],
                   Returned))
           in case (if file_type data = ''pandas''
                    then append_pandas_loop env table iterator data st
                    else Finished st) of
                Left st out \<Rightarrow> Some (db st, log st, out)
              | Finished st \<Rightarrow>
                  if file_type data = ''fits'' then
                    (case (case chunk of
                             None \<Rightarrow> map_sum id get_nrows (table_hdu data)
                           | Some c \<Rightarrow> Inr c) of
                       Inl e \<Rightarrow> Some (db st, log st, Raised e)
                     | Inr chunk \<Rightarrow>
                         (case append_fits_loop env table data chunk (st\<lparr>start := 0\<rparr>) of
                            None \<Rightarrow> None
                          | Some (Left st out) \<Rightarrow> Some (db st, log st, out)
                          | Some (Finished st) \<Rightarrow> Some (report st)))
                  else Some (report st)))"

text \<open>The loop \<open>for obj in [table, name]\<close> of \<open>do_append_table\<close>.\<close>

fun append_check_names ::
  "string option \<Rightarrow> string option list \<Rightarrow> (('f, 'r, 'd) event list \<times> outcome) option" where
  "append_check_names filename [] = None"
| "append_check_names filename (obj # objs) =
     (case obj of
        None \<Rightarrow>
          (case filename of
             None \<Rightarrow> Some ([], Raised TypeError)
           | Some f \<Rightarrow>
               if has_invalid_char f then
                 Some ([PrintColored ([NL] @ ''Invalid table name, change filename or use --tablename''
                          @ [NL]) ''red''], Returned)
               else append_check_names filename objs)
      | Some name \<Rightarrow>
          if has_invalid_char name then
            Some ([PrintColored ([NL] @ ''Invalid table name'' @ [NL]) ''red''], Returned)
          else append_check_names filename objs)"

text \<open>Lines 560 to 627.\<close>

definition append_table_prepare ::
  "('r, 'd, 'db) load_env \<Rightarrow> 'db \<Rightarrow> string \<Rightarrow> string option \<Rightarrow> int option \<Rightarrow> int option \<Rightarrow>
   (('f, 'r, 'd) event list \<times> outcome) + (string \<times> string \<times> int option)" where
  "append_table_prepare env db0 line name chunksize memsize =
     (let line = py_replace line CHR '';'' []
      in case parse_args env (py_split line) of
           None \<Rightarrow> Inl ([Help ''append_table''], Returned)
         | Some append_args \<Rightarrow>
            if args_help append_args then Inl ([Help ''append_table''], Returned)
            else
             (let filename = eafile_get_filename env (args_filename append_args);
                  table = args_tablename append_args
              in case append_check_names filename [table, name] of
                   Some (evs, out) \<Rightarrow> Inl (evs, out)
                 | None \<Rightarrow>
                    (case choose_chunk (eafile_get_chunksize env) filename append_args chunksize memsize of
                       Inl e \<Rightarrow> Inl ([], Raised e)
                     | Inr chunk \<Rightarrow>
                        (case filename of
                           None \<Rightarrow> Inl ([], Returned)
                         | Some filename \<Rightarrow>
                            (case splitext (basename filename) of
                               (base, ext) \<Rightarrow>
                                 if ext = ''.h5'' \<and> chunk \<noteq> None then
                                   Inl ([PrintColored h5_message ''red''], Returned)
                                 else
                                  (let table = (case table of
                                                  None \<Rightarrow> (case name of None \<Rightarrow> base | Some n \<Rightarrow> n)
                                                | Some t \<Rightarrow> t)
                                   in if \<not> check_table_exists env table db0 then
                                        Inl ([Print ([NL] @ '' Table does not exist. Table can be created with:''
                                                @ [NL] @ '' DESDB ~> CREATE TABLE '' @ py_upper table
                                                @ '' (COL1 TYPE1(SIZE), ..., COLN TYPEN(SIZE));'' @ [NL])],
                                             Returned)
                                      else Inr (table, filename, chunk)))))))"

definition do_append_table ::
  "('r, 'd, 'db) load_env \<Rightarrow> 'db \<Rightarrow> string \<Rightarrow> string option \<Rightarrow> int option \<Rightarrow> int option \<Rightarrow>
   ('db \<times> ('f, 'r, 'd) event list \<times> outcome) option" where
  "do_append_table env db0 line name chunksize memsize =
     (case append_table_prepare env db0 line name chunksize memsize of
        Inl (evs, out) \<Rightarrow> Some (db0, evs, out)
      | Inr (table, filename, chunk) \<Rightarrow> append_table_run env table filename chunk db0)"

section \<open>\<open>eautils/fileio.py\<close>: reading a file\<close>

text \<open>
  What \<open>read_file\<close> gets from pandas, numpy and fitsio. A numpy dtype has a kind and a
  name; \<open>StringDtype n\<close> is \<open>np.dtype('S' + str(n))\<close>. A column of a \<open>DataFrame\<close> has a
  label, a dtype and what \<open>max(df[c].str.len())\<close> gives for it, which may be an exception.
  The table \<open>fits[1]\<close> of a FITS file has columns with a name and the dtype of their field
  in \<open>get_rec_dtype(vstorage='fixed')[0]\<close>, and what \<open>fits[1].read().tolist()\<close> gives; the
  table itself may be missing. \<open>'v\<close> is the type of the values in a row.
\<close>

datatype np_dtype = Dtype char string | StringDtype nat

fun kind :: "np_dtype \<Rightarrow> char" where
  "kind (Dtype k name) = k"
| "kind (StringDtype n) = CHR ''S''"

record series =
  s_label :: string
  s_dtype :: np_dtype
  s_str_len_max :: "exn + nat"

record 'v pd_dataframe =
  pd_series :: "series list"
  pd_rows :: "'v list list"

record fits_column =
  fc_name :: string
  fc_dtype :: np_dtype

record 'v fits_table =
  fits_columns :: "fits_column list"
  fits_read :: "exn + 'v list list"

record 'v fits_handle =
  fits_hdu1 :: "exn + 'v fits_table"

record 'v io_env =
  pd_read_csv :: "string \<Rightarrow> string option \<Rightarrow> exn + 'v pd_dataframe"
  pd_read_hdf :: "string \<Rightarrow> string \<Rightarrow> exn + 'v pd_dataframe"
  fitsio_FITS :: "string \<Rightarrow> exn + 'v fits_handle"

text \<open>
  The object that \<open>read_file\<close> returns: what the library has read, and the attributes set
  on it, each with the value that calling it gives.
\<close>

datatype 'v ea_value = Columns "string list" | Rows "'v list list" | Dtypes "np_dtype list"

datatype 'v raw_data = PandasFrame "'v pd_dataframe" | FitsFile "'v fits_handle"

record 'v ea_object =
  raw :: "'v raw_data"
  ea_attrs :: "string \<Rightarrow> 'v ea_value option"

text \<open>A list comprehension whose element expression may raise: the first exception
  leaves it.\<close>

fun comprehension :: "('a \<Rightarrow> exn + 'b) \<Rightarrow> 'a list \<Rightarrow> exn + 'b list" where
  "comprehension f [] = Inr []"
| "comprehension f (x # xs) =
     (case f x of
        Inl e \<Rightarrow> Inl e
      | Inr y \<Rightarrow> (case comprehension f xs of Inl e \<Rightarrow> Inl e | Inr ys \<Rightarrow> Inr (y # ys)))"

text \<open>The element of the comprehension in \<open>read_pandas\<close>: \<open>df[c]\<close> is a column when the
  label \<open>c\<close> occurs once and a \<open>DataFrame\<close>, which has no \<open>dtype\<close>, otherwise.\<close>

definition column_dtype :: "'v pd_dataframe \<Rightarrow> series \<Rightarrow> exn + np_dtype" where
  "column_dtype df c =
     (if length (filter (\<lambda>s. s_label s = s_label c) (pd_series df)) \<noteq> 1 then Inl AttributeError
      else if kind (s_dtype c) \<noteq> CHR ''O'' then Inr (s_dtype c)
      else (case s_str_len_max c of Inl e \<Rightarrow> Inl e | Inr n \<Rightarrow> Inr (StringDtype n)))"

text \<open>Lines 286 to 297 of \<open>read_pandas\<close>: the dtypes and the three attributes.\<close>

definition patch_pandas :: "'v pd_dataframe \<Rightarrow> exn + 'v ea_object" where
  "patch_pandas df =
     (case comprehension (column_dtype df) (pd_series df) of
        Inl e \<Rightarrow> Inl e
      | Inr dtype_list \<Rightarrow>
          Inr \<lparr>raw = PandasFrame df,
               ea_attrs = [''ea_get_columns'' \<mapsto> Columns (map s_label (pd_series df)),
                           ''ea_get_values'' \<mapsto> Rows (pd_rows df),
                           ''ea_get_dtypes'' \<mapsto> Dtypes dtype_list]\<rparr>)"

text \<open>\<open>sub in s\<close> for two strings, as in \<open>ext in ('.h5')\<close>, where the parentheses make no
  tuple.\<close>

definition py_in_str :: "string \<Rightarrow> string \<Rightarrow> bool" where
  "py_in_str sub s = (py_find s sub \<noteq> - 1)"

definition problem_reading :: "string \<Rightarrow> exn" where
  "problem_reading filename = IOError (''Problem reading '' @ filename @ [NL])"

text \<open>The \<open>try\<close> block of \<open>read_pandas\<close>: an exception, the \<open>DataFrame\<close> read, or \<open>None\<close> when
  no branch assigns \<open>df\<close>.\<close>

definition pandas_reader :: "'v io_env \<Rightarrow> string \<Rightarrow> exn + 'v pd_dataframe option" where
  "pandas_reader env filename =
     (case splitext filename of
        (base, ext) \<Rightarrow>
          if ext \<in> set [''.csv'', ''.tab''] then
            map_sum id Some
              (pd_read_csv env filename (if ext = ''.tab'' then None else Some '',''))
          else if py_in_str ext ''.h5'' then map_sum id Some (pd_read_hdf env filename ''data'')
          else Inr None)"

definition read_pandas :: "'v io_env \<Rightarrow> string \<Rightarrow> exn + 'v ea_object" where
  "read_pandas env filename =
     (case check_filetype filename (Some PANDAS_EXTS) of
        Inl e \<Rightarrow> Inl e
      | Inr ok \<Rightarrow>
          (case pandas_reader env filename of
             Inl e \<Rightarrow> Inl (problem_reading filename)
           | Inr None \<Rightarrow> Inl NameError
           | Inr (Some df) \<Rightarrow> patch_pandas df))"

text \<open>Lines 314 to 321 of \<open>read_fitsio\<close>.\<close>

definition patch_fits :: "'v fits_handle \<Rightarrow> exn + 'v ea_object" where
  "patch_fits fits =
     (case fits_hdu1 fits of
        Inl e \<Rightarrow> Inl e
      | Inr table \<Rightarrow>
          (let dtype_list = map fc_dtype (fits_columns table)
           in case fits_read table of
                Inl e \<Rightarrow> Inl e
              | Inr rows \<Rightarrow>
                  Inr \<lparr>raw = FitsFile fits,
                       ea_attrs = [''ea_get_columns'' \<mapsto> Columns (map fc_name (fits_columns table)),
                                   ''ea_get_values'' \<mapsto> Rows rows,
                                   ''ea_get_dtypes'' \<mapsto> Dtypes dtype_list]\<rparr>))"

definition read_fitsio :: "'v io_env \<Rightarrow> string \<Rightarrow> exn + 'v ea_object" where
  "read_fitsio env filename =
     (case check_filetype filename (Some FITS_EXTS) of
        Inl e \<Rightarrow> Inl e
      | Inr ok \<Rightarrow>
          (case fitsio_FITS env filename of
             Inl e \<Rightarrow> Inl (problem_reading filename)
           | Inr fits \<Rightarrow> patch_fits fits))"

definition read_file :: "'v io_env \<Rightarrow> string \<Rightarrow> exn + 'v ea_object" where
  "read_file env filename =
     (case splitext filename of
        (base, ext) \<Rightarrow>
          (case check_filetype ext (Some FILE_EXTS) of
             Inl e \<Rightarrow> Inl e
           | Inr ok \<Rightarrow>
               if ext \<in> set PANDAS_EXTS then read_pandas env filename
               else if ext \<in> set FITS_EXTS then read_fitsio env filename
               else Inl (IOError [])))"




text \<open>Libraries for examples: no file can be read; and \<open>stars.csv\<close> holds two columns.\<close>

definition no_files :: "nat io_env" where
  "no_files = \<lparr>pd_read_csv = (\<lambda>filename sep. Inl (OtherError ''FileNotFoundError'')),
               pd_read_hdf = (\<lambda>filename key. Inl (OtherError ''FileNotFoundError'')),
               fitsio_FITS = (\<lambda>filename. Inl (OtherError ''OSError''))\<rparr>"

definition stars_frame :: "nat pd_dataframe" where
  "stars_frame =
     \<lparr>pd_series = [\<lparr>s_label = ''RA'', s_dtype = Dtype CHR ''i'' ''int64'', s_str_len_max = Inl AttributeError\<rparr>,
                    \<lparr>s_label = ''NAME'', s_dtype = Dtype CHR ''O'' ''object'', s_str_len_max = Inr 5\<rparr>],
      pd_rows = [[1, 2], [3, 4]]\<rparr>"

definition one_file :: "nat io_env" where
  "one_file = no_files\<lparr>pd_read_csv :=
     (\<lambda>filename sep. if filename = ''stars.csv'' then Inr stars_frame
                      else Inl (OtherError ''FileNotFoundError''))\<rparr>"

section \<open>Properties of \<open>splitext\<close> and \<open>check_filetype\<close>\<close>

lemma rfind_from_bounds:
  "rfind_from c s i found = r \<Longrightarrow> r = found \<or> (i \<le> r \<and> r < i + int (length s) \<and> s ! nat (r - i) = c)"
proof (induction s arbitrary: i found)
  case Nil
  then show ?case by simp
next
  case (Cons x xs)
  from Cons.prems have "rfind_from c xs (i + 1) (if x = c then i else found) = r" by simp
  from Cons.IH [OF this]
  have "r = (if x = c then i else found) \<or> (i + 1 \<le> r \<and> r < i + 1 + int (length xs) \<and> xs ! nat (r - (i + 1)) = c)" .
  then show ?case
  proof
    assume "r = (if x = c then i else found)"
    then show ?thesis by (cases "x = c") auto
  next
    assume a: "i + 1 \<le> r \<and> r < i + 1 + int (length xs) \<and> xs ! nat (r - (i + 1)) = c"
    then have "nat (r - i) = Suc (nat (r - (i + 1)))" by linarith
    with a show ?thesis by auto
  qed
qed

lemma py_rfind_bounds:
  "py_rfind s c = - 1 \<or> (0 \<le> py_rfind s c \<and> nat (py_rfind s c) < length s \<and> s ! nat (py_rfind s c) = c)"
  using rfind_from_bounds [of c s 0 "- 1" "py_rfind s c"]
  by (auto simp: py_rfind_def)

lemma splitext_loop_concat:
  "splitext_loop p f d = (b, e) \<Longrightarrow> b @ e = p"
proof (induction p f d rule: splitext_loop.induct)
  case (1 p f d)
  show ?case
  proof (cases "f < d")
    case False
    with "1.prems" show ?thesis by (simp add: splitext_loop.simps)
  next
    case True
    show ?thesis
    proof (cases "p ! f \<noteq> CHR ''.''")
      case True
      with \<open>f < d\<close> "1.prems" show ?thesis by (auto simp: splitext_loop.simps)
    next
      case False
      with \<open>f < d\<close> "1.prems" have "splitext_loop p (f + 1) d = (b, e)"
        by (simp add: splitext_loop.simps)
      with "1.IH" \<open>f < d\<close> False show ?thesis by simp
    qed
  qed
qed

lemma splitext_loop_ext:
  "d < length p \<Longrightarrow> p ! d = CHR ''.'' \<Longrightarrow> splitext_loop p f d = (b, e) \<Longrightarrow> e = [] \<and> b = p \<or> e = drop d p \<and> b = take d p \<and> e \<noteq> []"
proof (induction p f d rule: splitext_loop.induct)
  case (1 p f d)
  show ?case
  proof (cases "f < d")
    case False
    with "1.prems" show ?thesis by (simp add: splitext_loop.simps)
  next
    case True
    show ?thesis
    proof (cases "p ! f \<noteq> CHR ''.''")
      case True
      with \<open>f < d\<close> "1.prems" show ?thesis by (auto simp: splitext_loop.simps)
    next
      case False
      with \<open>f < d\<close> "1.prems" have "splitext_loop p (f + 1) d = (b, e)"
        by (simp add: splitext_loop.simps)
      with "1.IH" \<open>f < d\<close> False "1.prems" show ?thesis by simp
    qed
  qed
qed

lemma splitext_cases:
  "splitext p = (b, e) \<Longrightarrow> (e = [] \<and> b = p) \<or> (e \<noteq> [] \<and> hd e = CHR ''.'' \<and> b @ e = p)"
proof -
  assume a: "splitext p = (b, e)"
  let ?s = "py_rfind p CHR ''/''" and ?d = "py_rfind p CHR ''.''"
  show ?thesis
  proof (cases "?d > ?s")
    case False
    with a show ?thesis by (simp add: splitext_def Let_def)
  next
    case True
    with a have l: "splitext_loop p (nat (?s + 1)) (nat ?d) = (b, e)"
      by (simp add: splitext_def Let_def)
    have "?s = - 1 \<or> 0 \<le> ?s" using py_rfind_bounds [of p "CHR ''/''"] by auto
    with True have "0 \<le> ?d" by auto
    with py_rfind_bounds [of p "CHR ''.''"] have d: "nat ?d < length p" "p ! nat ?d = CHR ''.''"
      by auto
    from splitext_loop_ext [OF d l] show ?thesis
      using d by (auto simp: hd_drop_conv_nth)
  qed
qed

lemma splitext_no_ext: "snd (splitext p) = [] \<Longrightarrow> fst (splitext p) = p"
  using splitext_cases [of p "fst (splitext p)" "snd (splitext p)"] by (metis prod.collapse)

lemma check_filetype_file_ext:
  "check_filetype filename types =
     (if file_ext filename \<in> set (case types of None \<Rightarrow> FILE_EXTS | Some ts \<Rightarrow> ts) then Inr True
      else Inl (IOError (unrecognized_filetype (file_ext filename)
             (Some (case types of None \<Rightarrow> FILE_EXTS | Some ts \<Rightarrow> ts)))))"
  using splitext_no_ext [of filename]
  by (auto simp: check_filetype_def file_ext_def Let_def split: prod.splits)

lemma FILE_EXTS_lower: "t \<in> set FILE_EXTS \<Longrightarrow> py_lower t = t"
  by (auto simp: FILE_EXTS_def PANDAS_EXTS_def FITS_EXTS_def py_lower_def py_lower_char_def ascii_lowercase_def ascii_uppercase_def)

lemma ext_check: "ext \<in> set FILE_EXTS \<Longrightarrow> check_filetype ext (Some FILE_EXTS) = Inr True"
  by (auto simp: check_filetype_file_ext file_ext_def FILE_EXTS_def PANDAS_EXTS_def FITS_EXTS_def
      splitext_def py_rfind_def splitext_loop.simps)

lemma read_file_pandas_path:
  assumes "snd (splitext filename) \<in> set PANDAS_EXTS"
  shows "read_file env filename = read_pandas env filename"
proof -
  obtain base ext where s: "splitext filename = (base, ext)" by (cases "splitext filename")
  with assms have p: "ext \<in> set PANDAS_EXTS" by simp
  then have "ext \<in> set FILE_EXTS" by (simp add: FILE_EXTS_def)
  from ext_check [OF this] s p show ?thesis by (simp add: read_file_def)
qed

lemma read_file_fitsio_path:
  assumes "snd (splitext filename) \<in> set FITS_EXTS"
  shows "read_file env filename = read_fitsio env filename"
proof -
  obtain base ext where s: "splitext filename = (base, ext)" by (cases "splitext filename")
  with assms have p: "ext \<in> set FITS_EXTS" by simp
  then have f: "ext \<in> set FILE_EXTS" by (simp add: FILE_EXTS_def)
  from p have n: "ext \<notin> set PANDAS_EXTS" by (auto simp: FITS_EXTS_def PANDAS_EXTS_def)
  from ext_check [OF f] s p n show ?thesis by (simp add: read_file_def)
qed

text \<open>
  C1. \<open>check_filetype\<close> returns \<open>True\<close> for every file name whose extension (the name
  itself when it has no extension) is \<open>.csv\<close>, \<open>.tab\<close>, \<open>.h5\<close> or \<open>.fits\<close>, and raises
  \<open>IOError\<close> for every other one. \<open>FILE_EXTS\<close> is exactly these four: \<open>PANDAS_EXTS\<close> holds
  the first three, for which \<open>read_file\<close> calls \<open>read_pandas\<close>, and \<open>FITS_EXTS\<close> the last, for
  which it calls \<open>read_fitsio\<close>.
\<close>

theorem check_filetype_supported:
  "(file_ext filename \<in> {''.csv'', ''.tab'', ''.h5'', ''.fits''} \<longrightarrow>
      check_filetype filename None = Inr True) \<and>
   (file_ext filename \<notin> {''.csv'', ''.tab'', ''.h5'', ''.fits''} \<longrightarrow>
      (\<exists>msg. check_filetype filename None = Inl (IOError msg))) \<and>
   FILE_EXTS = [''.csv'', ''.tab'', ''.h5'', ''.fits''] \<and>
   PANDAS_EXTS = [''.csv'', ''.tab'', ''.h5''] \<and>
   FITS_EXTS = [''.fits''] \<and>
   (snd (splitext filename) \<in> {''.csv'', ''.tab'', ''.h5''} \<longrightarrow>
      read_file env filename = read_pandas env filename) \<and>
   (snd (splitext filename) = ''.fits'' \<longrightarrow>
      read_file env filename = read_fitsio env filename)"
proof -
  have "snd (splitext filename) \<in> {''.csv'', ''.tab'', ''.h5''} \<longrightarrow>
      read_file env filename = read_pandas env filename"
    using read_file_pandas_path [of filename env] by (simp add: PANDAS_EXTS_def)
  moreover have "snd (splitext filename) = ''.fits'' \<longrightarrow>
      read_file env filename = read_fitsio env filename"
    using read_file_fitsio_path [of filename env] by (simp add: FITS_EXTS_def)
  ultimately show ?thesis
    by (simp add: check_filetype_file_ext FILE_EXTS_def PANDAS_EXTS_def FITS_EXTS_def)
qed

theorem check_filetype_supported_witness:
  "check_filetype ''catalog.fits'' None = Inr True \<and>
   check_filetype ''.csv'' None = Inr True \<and>
   (\<exists>msg. check_filetype ''notes.txt'' None = Inl (IOError msg)) \<and>
   read_file one_file ''stars.csv'' = read_pandas one_file ''stars.csv'' \<and>
   read_file no_files ''catalog.fits'' = read_fitsio no_files ''catalog.fits''"
proof -
  have e: "file_ext ''catalog.fits'' = ''.fits''" "file_ext ''.csv'' = ''.csv''"
    "file_ext ''notes.txt'' = ''.txt''" "snd (splitext ''stars.csv'') = ''.csv''"
    "snd (splitext ''catalog.fits'') = ''.fits''"
    by (simp_all add: file_ext_def splitext_def py_rfind_def splitext_loop.simps)
  from check_filetype_supported [of "''catalog.fits''" no_files] e
  have "check_filetype ''catalog.fits'' None = Inr True"
    "read_file no_files ''catalog.fits'' = read_fitsio no_files ''catalog.fits''"
    by simp_all
  moreover from check_filetype_supported [of "''.csv''" no_files] e
  have "check_filetype ''.csv'' None = Inr True" by simp
  moreover from check_filetype_supported [of "''notes.txt''" no_files] e
  have "\<exists>msg. check_filetype ''notes.txt'' None = Inl (IOError msg)" by simp
  moreover from check_filetype_supported [of "''stars.csv''" one_file] e
  have "read_file one_file ''stars.csv'' = read_pandas one_file ''stars.csv''" by simp
  ultimately show ?thesis by simp
qed

text \<open>
  C10. Extension matching is case-sensitive: a file name whose extension differs from a
  supported one only in letter case (\<open>.CSV\<close>, \<open>.FITS\<close>) makes \<open>check_filetype\<close> raise
  \<open>IOError\<close>.
\<close>

theorem check_filetype_case_sensitive:
  assumes "t \<in> set FILE_EXTS" and "differs_only_in_case (file_ext filename) t"
  shows "\<exists>msg. check_filetype filename None = Inl (IOError msg)"
proof -
  have "file_ext filename \<notin> set FILE_EXTS"
  proof
    assume "file_ext filename \<in> set FILE_EXTS"
    then have "py_lower (file_ext filename) = file_ext filename" by (rule FILE_EXTS_lower)
    moreover from assms(1) have "py_lower t = t" by (rule FILE_EXTS_lower)
    ultimately show False using assms(2) by (simp add: differs_only_in_case_def)
  qed
  then show ?thesis by (simp add: check_filetype_file_ext)
qed

theorem check_filetype_case_sensitive_witness:
  "\<exists>msg. check_filetype ''data.CSV'' None = Inl (IOError msg)"
proof -
  have a: "''.csv'' \<in> set FILE_EXTS" by (simp add: FILE_EXTS_def PANDAS_EXTS_def)
  have b: "differs_only_in_case (file_ext ''data.CSV'') ''.csv''"
    by (simp add: differs_only_in_case_def py_lower_def py_lower_char_def ascii_lowercase_def ascii_uppercase_def
        file_ext_def splitext_def py_rfind_def splitext_loop.simps)
  from check_filetype_case_sensitive [OF a b] show ?thesis .
qed

section \<open>The parse of \<open>do_execproc\<close>\<close>

















section \<open>\<open>do_set_password\<close>\<close>






section \<open>\<open>do_change_db\<close>\<close>

lemma split_words_are_words:
  "\<forall>c \<in> set w. \<not> py_isspace c \<Longrightarrow>
   \<forall>x \<in> set (split_words s w). x \<noteq> [] \<and> (\<forall>c \<in> set x. \<not> py_isspace c)"
proof (induction s arbitrary: w)
  case Nil
  then show ?case by simp
next
  case (Cons a s)
  show ?case
  proof (cases "py_isspace a")
    case True
    with Cons.IH [of "[]"] Cons.prems show ?thesis by auto
  next
    case False
    with Cons.IH [of "w @ [a]"] Cons.prems show ?thesis by auto
  qed
qed

lemma split_words_word_prefix:
  "\<forall>c \<in> set v. \<not> py_isspace c \<Longrightarrow> split_words (v @ s) w = split_words s (w @ v)"
  by (induction v arbitrary: w) auto

lemma split_words_join:
  "\<forall>x \<in> set ws. x \<noteq> [] \<and> (\<forall>c \<in> set x. \<not> py_isspace c) \<Longrightarrow>
   split_words (py_join '' '' ws) [] = ws"
proof (induction "'' ''" ws rule: py_join.induct)
  case 1
  then show ?case by simp
next
  case (2 x)
  then show ?case using split_words_word_prefix [of x "[]" "[]"] by simp
next
  case (3 x y ys)
  from "3.prems" have x: "x \<noteq> []" "\<forall>c \<in> set x. \<not> py_isspace c" by auto
  from "3.prems" have "split_words (py_join '' '' (y # ys)) [] = y # ys"
    by (intro "3.hyps") auto
  with x show ?case
    using split_words_word_prefix [of x "'' '' @ py_join '' '' (y # ys)" "[]"]
    by (simp add: py_isspace_def)
qed

lemma py_split_join_split: "py_split (py_join '' '' (py_split line)) = py_split line"
  unfolding py_split_def
  by (rule split_words_join) (rule split_words_are_words, simp)

lemma py_split_first_word:
  "py_split line = key_db # others \<Longrightarrow> py_split (py_join '' '' (key_db # others)) = key_db # others"
  using py_split_join_split [of line] by simp

lemma py_split_nonempty: "py_split line = x # xs \<Longrightarrow> line \<noteq> []"
  by (auto simp: py_split_def)

lemma connect_once:
  "connect_tries env [0] self =
     (case connect env 0 (user self) (password self) (dsn self) of
        Inr c \<Rightarrow>
          (self\<lparr>con := c\<rparr>,
           [Connect (user self) (password self) (dsn self)]
             @ (if autocommit self then [SetConAutocommit] else []), True)
      | Inl e \<Rightarrow>
          (self,
           [Connect (user self) (password self) (dsn self),
            PrintColored (''Error when trying to connect to database: '' @ py_strip e) ''red'',
            Print ([NL] @ ''   Retrying...'' @ [NL]),
            Sleep 5], False))"
  by (simp split: sum.split)


lemma do_change_db_no_config:
  assumes "py_split line = key_db # others" and "key_db \<in> set valid_dbs"
    and "key_db \<noteq> dbname self" and "read_db_config (self\<lparr>dbname := key_db\<rparr>) = (self1, False)"
  shows "do_change_db env self line =
     (self1, [PrintColored (''DB '' @ key_db @ '' does not exist in your desservices file'') ''red''],
      Returned)"
  using assms py_split_nonempty [OF assms(1)] py_split_first_word [OF assms(1)]
  by (simp add: do_change_db_def valid_dbs_def)

lemma do_change_db_close_fails:
  assumes "py_split line = key_db # others" and "key_db \<in> set valid_dbs"
    and "key_db \<noteq> dbname self" and "read_db_config (self\<lparr>dbname := key_db\<rparr>) = (self1, True)"
    and "con_close env (con self1) = Some e"
  shows "do_change_db env self line =
     (self1\<lparr>dsn := makedsn env (dbhost self1) (port self1) (service_name self1)\<rparr>,
      (if \<not> quiet self1 then [Print (''Connecting to DB ** '' @ dbname self1 @ '' ** ...'')] else [])
      @ [ConClose], Raised e)"
  using assms py_split_nonempty [OF assms(1)] py_split_first_word [OF assms(1)]
  by (simp add: do_change_db_def valid_dbs_def Let_def)

lemma do_change_db_connects:
  assumes "py_split line = key_db # others" and "key_db \<in> set valid_dbs"
    and "key_db \<noteq> dbname self" and "read_db_config (self\<lparr>dbname := key_db\<rparr>) = (self1, True)"
    and "con_close env (con self1) = None"
    and "self2 = self1\<lparr>dsn := makedsn env (dbhost self1) (port self1) (service_name self1)\<rparr>"
    and "ev1 = (if \<not> quiet self1 then [Print (''Connecting to DB ** '' @ dbname self1 @ '' ** ...'')] else [])"
  shows "do_change_db env self line =
     (case connect env 0 (user self2) (password self2) (dsn self2) of
        Inl e \<Rightarrow>
          (self2,
           ev1 @ [ConClose, Connect (user self2) (password self2) (dsn self2),
            PrintColored (''Error when trying to connect to database: '' @ py_strip e) ''red'',
            Print ([NL] @ ''   Retrying...'' @ [NL]),
            Sleep 5, Print could_not_connect], Exited 0)
      | Inr c \<Rightarrow>
          (self2\<lparr>con := c, cur := c, cur_arraysize := prefetch self2\<rparr>,
           ev1 @ [ConClose, Connect (user self2) (password self2) (dsn self2)]
             @ (if autocommit self2 then [SetConAutocommit] else [])
             @ [Print [], Print ''Run refresh_metadata_cache to reload the auto-completion metatada'',
                SetMessages], Returned))"
  using assms py_split_nonempty [OF assms(1)] py_split_first_word [OF assms(1)]
  by (simp add: do_change_db_def valid_dbs_def Let_def connect_once
      del: connect_tries.simps split: sum.split)


text \<open>
  C8. \<open>do_change_db\<close> is not atomic on error: for a valid key, not the current database,
  whose section is absent from \<open>desconfig\<close>, it prints that the database does not exist in
  the desservices file and returns with \<open>self.dbname\<close> already set to the key, while the
  connection is the old one and was not closed.
\<close>

theorem do_change_db_renames_before_config_error:
  assumes "py_split line = key_db # others"
    and "key_db \<in> {''dessci'', ''desoper'', ''destest''}"
    and "key_db \<noteq> dbname self"
    and "desconfig self (''db-'' @ key_db) = None"
  shows "\<exists>self' evs.
     do_change_db env self line = (self', evs, Returned) \<and>
     evs = [PrintColored (''DB '' @ key_db @ '' does not exist in your desservices file'') ''red''] \<and>
     dbname self' = key_db \<and> dbname self' \<noteq> dbname self \<and> con self' = con self \<and>
     self' = self\<lparr>dbname := key_db\<rparr>"
proof -
  have "read_db_config (self\<lparr>dbname := key_db\<rparr>) = (self\<lparr>dbname := key_db\<rparr>, False)"
    using assms(4) by (simp add: read_db_config_def config_get_def)
  with assms(1-3) have "do_change_db env self line =
     (self\<lparr>dbname := key_db\<rparr>,
      [PrintColored (''DB '' @ key_db @ '' does not exist in your desservices file'') ''red''], Returned)"
    by (intro do_change_db_no_config) (auto simp: valid_dbs_def)
  with assms(3) show ?thesis by simp
qed

theorem do_change_db_renames_before_config_error_witness:
  "do_change_db refusing shell0 ''destest'' =
     (shell0\<lparr>dbname := ''destest''\<rparr>,
      [PrintColored ''DB destest does not exist in your desservices file'' ''red''
        :: (unit, unit, unit) event], Returned) \<and>
   con (shell0\<lparr>dbname := ''destest''\<rparr>) = con shell0"
proof -
  have a: "py_split ''destest'' = ''destest'' # []" by (simp add: py_split_def py_isspace_def)
  have b: "''destest'' \<in> {''dessci'', ''desoper'', ''destest''}" by simp
  have c: "''destest'' \<noteq> dbname shell0" by (simp add: shell0_def)
  have d: "desconfig shell0 (''db-'' @ ''destest'') = None" by (simp add: shell0_def desconfig0_def)
  from do_change_db_renames_before_config_error [OF a b c d, of refusing]
  show ?thesis by auto
qed

text \<open>
  C4. For a valid key that is not the current database, \<open>do_change_db\<close> makes at most one
  attempt to connect, whatever later attempts would give; the attempt comes after the
  old connection is closed; and when it fails, the last thing printed is that it could
  not connect.
\<close>

theorem do_change_db_single_connect_attempt:
  assumes "py_split line = key_db # others"
    and "key_db \<in> {''dessci'', ''desoper'', ''destest''}"
    and "key_db \<noteq> dbname self"
    and "do_change_db env self line = (self', evs, out)"
  shows "length (filter is_connect evs) \<le> 1 \<and>
         (list_ex is_connect evs \<longrightarrow> ConClose \<in> set (takeWhile (\<lambda>e. \<not> is_connect e) evs)) \<and>
         (\<forall>u p d msg. Connect u p d \<in> set evs \<and> connect env 0 u p d = Inl msg \<longrightarrow>
            last evs = Print could_not_connect)"
proof -
  from assms(2) have v: "key_db \<in> set valid_dbs" by (simp add: valid_dbs_def)
  obtain self1 ok where r: "read_db_config (self\<lparr>dbname := key_db\<rparr>) = (self1, ok)"
    by (cases "read_db_config (self\<lparr>dbname := key_db\<rparr>)")
  show ?thesis
  proof (cases ok)
    case False
    with r have r0: "read_db_config (self\<lparr>dbname := key_db\<rparr>) = (self1, False)" by simp
    from assms(4) have "evs = [PrintColored (''DB '' @ key_db @ '' does not exist in your desservices file'') ''red'']"
      by (auto simp: do_change_db_no_config [OF assms(1) v assms(3) r0])
    then show ?thesis by simp
  next
    case True
    with r have r': "read_db_config (self\<lparr>dbname := key_db\<rparr>) = (self1, True)" by simp
    let ?self2 = "self1\<lparr>dsn := makedsn env (dbhost self1) (port self1) (service_name self1)\<rparr>"
    let ?ev1 = "if \<not> quiet self1 then [Print (''Connecting to DB ** '' @ dbname self1 @ '' ** ...'')] else []"
    show ?thesis
    proof (cases "con_close env (con self1)")
      case (Some e)
      from assms(4) have "evs = ?ev1 @ [ConClose]"
        by (auto simp: do_change_db_close_fails [OF assms(1) v assms(3) r' Some])
      then show ?thesis by simp
    next
      case None
      note k = do_change_db_connects [OF assms(1) v assms(3) r' None refl refl]
      show ?thesis
      proof (cases "connect env 0 (user ?self2) (password ?self2) (dsn ?self2)")
        case (Inl msg)
        with assms(4) have "evs = ?ev1 @ [ConClose, Connect (user ?self2) (password ?self2) (dsn ?self2),
            PrintColored (''Error when trying to connect to database: '' @ py_strip msg) ''red'',
            Print ([NL] @ ''   Retrying...'' @ [NL]), Sleep 5, Print could_not_connect]"
          by (auto simp: k)
        then show ?thesis by simp
      next
        case (Inr c)
        with assms(4) have "evs = ?ev1 @ [ConClose, Connect (user ?self2) (password ?self2) (dsn ?self2)]
             @ (if autocommit ?self2 then [SetConAutocommit] else [])
             @ [Print [], Print ''Run refresh_metadata_cache to reload the auto-completion metatada'',
                SetMessages]"
          by (auto simp: k)
        with Inr show ?thesis by auto
      qed
    qed
  qed
qed

theorem do_change_db_single_connect_attempt_witness:
  "length (filter is_connect
     (fst (snd (do_change_db refusing shell0 ''desoper''
        :: nat db_func \<times> (unit, unit, unit) event list \<times> outcome)))) = 1 \<and>
   last (fst (snd (do_change_db refusing shell0 ''desoper''
        :: nat db_func \<times> (unit, unit, unit) event list \<times> outcome))) = Print could_not_connect"
proof -
  obtain s :: "nat db_func" and evs :: "(unit, unit, unit) event list" and out
    where r: "do_change_db refusing shell0 ''desoper'' = (s, evs, out)"
    by (rule prod_cases3)
  have a: "py_split ''desoper'' = ''desoper'' # []" by (simp add: py_split_def py_isspace_def)
  have b: "''desoper'' \<in> {''dessci'', ''desoper'', ''destest''}" by simp
  have c: "''desoper'' \<noteq> dbname shell0" by (simp add: shell0_def)
  have e: "Connect ''alice'' ''oper_pw'' ''oper.example.org:1521/oper'' \<in> set evs"
    using r by (auto simp: do_change_db_def py_split_def py_isspace_def read_db_config_def
        config_get_def shell0_def desconfig0_def refusing_def Let_def)
  have f: "connect refusing 0 ''alice'' ''oper_pw'' ''oper.example.org:1521/oper''
           = Inl ''ORA-12170: TNS:Connect timeout occurred''"
    by (simp add: refusing_def)
  have "is_connect (Connect ''alice'' ''oper_pw'' ''oper.example.org:1521/oper'' :: (unit, unit, unit) event)"
    by simp
  with e have g: "filter is_connect evs \<noteq> []" unfolding filter_empty_conv by blast
  from do_change_db_single_connect_attempt [OF a b c r] e f g
  have "length (filter is_connect evs) = 1 \<and> last evs = Print could_not_connect"
    by (cases "filter is_connect evs") auto
  with r show ?thesis by simp
qed

section \<open>Failures and the end of the process\<close>









section \<open>\<open>do_load_table\<close>: the calls of a load\<close>

lemma calls_append [simp]: "calls (a @ b) = calls a @ calls b"
  by (simp add: calls_def)

lemma calls_Nil [simp]: "calls [] = []"
  by (simp add: calls_def)

lemma calls_Cons [simp]: "calls (e # es) = call_of e @ calls es"
  by (simp add: calls_def)



lemma load_fail_Return:
  "\<exists>st' out. (load_fail env table e st :: (('f, 'r, 'd, 'db) loading, 'x) step) = Return st' out \<and>
     log st' = log st @ [PrintException e, DropTable table]"
  by (auto simp: load_fail_def say_def split: prod.splits option.splits)



















section \<open>\<open>do_append_table\<close>: a load in chunks is not atomic\<close>

text \<open>
  C6. A chunked \<open>do_append_table\<close> is not atomic. When \<open>insert_data\<close> has inserted the first
  chunk and raises on the second, the command prints the exception and returns: it calls
  nothing else, and the database is the one that the two calls of \<open>insert_data\<close> have
  left, with what the first chunk has put into it.
\<close>

theorem do_append_table_keeps_earlier_chunks:
  fixes env :: "('r, 'd, 'db) load_env"
  assumes "(append_table_prepare env db0 line name chunksize memsize
              :: (('f, 'r, 'd) event list \<times> outcome) + (string \<times> string \<times> int option))
           = Inr (table, filename, chunk)"
    and "eafile_read_file env filename = Inr (data, True)"
    and "file_type data = ''pandas''"
    and "payload data = TextFileReader (Inr df1 # Inr df2 # others)"
    and "df_values df1 \<noteq> []" and "df_values df2 \<noteq> []"
    and "eafile_get_dtypes env \<lparr>file_type = ''pandas'', payload = DataFrame df1\<rparr> = Inr dt"
    and "insert_data env table (df_columns df1) (df_values df1) dt 0 db0 = (None, db1)"
    and "insert_data env table (df_columns df2) (df_values df2) dt 1 db1 = (Some e, db2)"
  shows "do_append_table env db0 line name chunksize memsize =
     Some (db2,
           [ReadFile filename,
            InsertData table (df_columns df1) (df_values df1) dt 0,
            InsertData table (df_columns df2) (df_values df2) dt 1,
            PrintException e :: ('f, 'r, 'd) event],
           Returned)"
proof -
  let ?st0 = "\<lparr>iteration = 0, done_flag = False, total_rows = 0, dtypes = None,
                columns = None, start = 0, db = db0, log = [ReadFile filename]\<rparr>
             :: ('f, 'r, 'd, 'db) loading"
  let ?data1 = "data\<lparr>payload := TextFileReader (Inr df2 # others)\<rparr>"
  let ?st1 = "\<lparr>iteration = Suc 0, done_flag = False, total_rows = length (df_values df1),
                dtypes = Some dt, columns = Some (df_columns df1), start = 0, db = db1,
                log = [ReadFile filename, InsertData table (df_columns df1) (df_values df1) dt 0]\<rparr>
             :: ('f, 'r, 'd, 'db) loading"
  let ?st2 = "\<lparr>iteration = Suc 0, done_flag = False,
                total_rows = length (df_values df1) + length (df_values df2),
                dtypes = Some dt, columns = Some (df_columns df2), start = 0, db = db2,
                log = [ReadFile filename, InsertData table (df_columns df1) (df_values df1) dt 0,
                       InsertData table (df_columns df2) (df_values df2) dt (Suc 0), PrintException e]\<rparr>
             :: ('f, 'r, 'd, 'db) loading"
  have b0: "append_pandas_body env table True data ?st0 = Continue ?data1 ?st1"
    using assms(4,5,7,8)
    by (simp add: append_pandas_body_def get_chunk_def append_insert_def say_def)
  have b1: "append_pandas_body env table True ?data1 ?st1 = Return ?st2 Returned"
    using assms(6,9)
    by (simp add: append_pandas_body_def get_chunk_def append_insert_def append_fail_def say_def)
  have l1: "append_pandas_loop env table True ?data1 ?st1 = Left ?st2 Returned"
    by (subst append_pandas_loop.simps) (simp add: b1)
  have "append_pandas_loop env table True data ?st0 = Left ?st2 Returned"
    by (subst append_pandas_loop.simps) (simp add: b0 l1)
  with assms(1,2,3) show ?thesis
    by (simp add: do_append_table_def append_table_run_def)
qed

theorem do_append_table_keeps_earlier_chunks_witness:
  "map_option (\<lambda>(d, evs, out). (d ''ragged'', calls evs, out))
     (do_append_table (toy_load_env toy_files) [''ragged'' \<mapsto> [[9, 9]]] ''ragged.csv'' None (Some 2) None
       :: (toy_db \<times> (unit, nat list, string) event list \<times> outcome) option) =
   Some (Some [[9, 9], [1, 2], [3, 4]], [Insert 2 0, Insert 1 1], Returned)"
proof -
  let ?env = "toy_load_env toy_files"
  let ?db0 = "[''ragged'' \<mapsto> [[9, 9]]] :: toy_db"
  let ?df1 = "\<lparr>df_columns = [''RA'', ''DEC''], df_values = [[1, 2], [3, 4]]\<rparr> :: nat list frame"
  let ?df2 = "\<lparr>df_columns = [''RA'', ''DEC''], df_values = [[5, 6, 7]]\<rparr> :: nat list frame"
  let ?data = "\<lparr>file_type = ''pandas'', payload = TextFileReader [Inr ?df1, Inr ?df2]\<rparr>"
  let ?db1 = "[''ragged'' \<mapsto> [[9, 9], [1, 2], [3, 4]]] :: toy_db"
  have a1: "(append_table_prepare ?env ?db0 ''ragged.csv'' None (Some 2) None
              :: ((unit, nat list, string) event list \<times> outcome) + (string \<times> string \<times> int option))
            = Inr (''ragged'', ''ragged.csv'', Some 2)"
    by (simp add: append_table_prepare_def toy_load_env_def py_replace_def py_split_def
        py_isspace_def has_invalid_char_def invalid_chars_def choose_chunk_def basename_def
        splitext_def py_rfind_def splitext_loop.simps)
  have a2: "eafile_read_file ?env ''ragged.csv'' = Inr (?data, True)"
    by (simp add: toy_load_env_def toy_files_def)
  have a3: "file_type ?data = ''pandas''" by simp
  have a4: "payload ?data = TextFileReader (Inr ?df1 # Inr ?df2 # [])" by simp
  have a5: "df_values ?df1 \<noteq> []" and a6: "df_values ?df2 \<noteq> []" by simp_all
  have a7: "eafile_get_dtypes ?env \<lparr>file_type = ''pandas'', payload = DataFrame ?df1\<rparr> = Inr ''NUMBER''"
    by (simp add: toy_load_env_def)
  have a8: "insert_data ?env ''ragged'' (df_columns ?df1) (df_values ?df1) ''NUMBER'' 0 ?db0 = (None, ?db1)"
    by (simp add: toy_load_env_def)
  have a9: "insert_data ?env ''ragged'' (df_columns ?df2) (df_values ?df2) ''NUMBER'' 1 ?db1
            = (Some (OtherError ''ORA-01722''), ?db1)"
    by (simp add: toy_load_env_def)
  show ?thesis
    by (simp add: do_append_table_keeps_earlier_chunks [OF a1 a2 a3 a4 a5 a6 a7 a8 a9])
qed

section \<open>\<open>read_file\<close>: the common interface\<close>










end
